theory Spec2Isabelle
  imports Main "HOL-Library.Sublist"
begin

section \<open>R36Shell: the shell execution engine of \<open>src/Terminal/r36s_terminal.py\<close>\<close>

text \<open>
  The development embeds the parts of class \<open>ShellExecutor\<close> that the history store, the
  PTY escape filter, the environment probe, alias resolution and user switching consist of.
  Python text is a list of \<^typ>\<open>char\<close>, one element per code point below 256, and bytes
  are lists of the same type. Attributes of the object are fields of the record \<open>shell\<close>;
  every method takes the record and returns the updated one. What the operating system
  answers (probe results, the executable search path, the effective uid) is an argument of
  the method that asks for it.
\<close>

subsection \<open>Python text primitives\<close>

definition is_space :: "char \<Rightarrow> bool" where
  \<comment> \<open>\<open>str.isspace\<close> on the code points below 256\<close>
  "is_space c = (of_char c \<in> {9, 10, 11, 12, 13, 28, 29, 30, 31, 32, 133, 160 :: nat})"

definition lstrip :: "string \<Rightarrow> string" where
  "lstrip s = dropWhile is_space s"

definition rstrip :: "string \<Rightarrow> string" where
  "rstrip s = rev (dropWhile is_space (rev s))"

definition strip :: "string \<Rightarrow> string" where
  "strip s = rstrip (lstrip s)"

definition is_ascii_digit :: "char \<Rightarrow> bool" where
  "is_ascii_digit c = (48 \<le> (of_char c :: nat) \<and> (of_char c :: nat) \<le> 57)"



definition isalpha_char :: "char \<Rightarrow> bool" where
  \<comment> \<open>\<open>str.isalpha\<close> per character, on the code points below 256\<close>
  "isalpha_char c = (let n = (of_char c :: nat) in
     (65 \<le> n \<and> n \<le> 90) \<or> (97 \<le> n \<and> n \<le> 122) \<or> n = 170 \<or> n = 181 \<or> n = 186 \<or>
     (192 \<le> n \<and> n \<le> 214) \<or> (216 \<le> n \<and> n \<le> 246) \<or> (248 \<le> n \<and> n \<le> 255))"

definition digit_char :: "nat \<Rightarrow> char" where
  "digit_char d = char_of (48 + d)"

function str_nat :: "nat \<Rightarrow> string" where
  "str_nat n = (if n < 10 then [digit_char n] else str_nat (n div 10) @ [digit_char (n mod 10)])"
  by pat_completeness auto
termination
  by (relation "measure id") auto

declare str_nat.simps [simp del]

definition str_int :: "int \<Rightarrow> string" where
  \<comment> \<open>\<open>str(i)\<close>, the rendering an f-string gives an integer\<close>
  "str_int i = (if i < 0 then CHR ''-'' # str_nat (nat (- i)) else str_nat (nat i))"

fun digits_value :: "nat \<Rightarrow> string \<Rightarrow> nat" where
  "digits_value acc [] = acc"
| "digits_value acc (c # cs) = digits_value (10 * acc + (of_char c - 48)) cs"

fun int_body_ok :: "bool \<Rightarrow> string \<Rightarrow> bool" where
  \<comment> \<open>digits with single underscores between them; the flag says the last character was a digit\<close>
  "int_body_ok prev_digit [] = prev_digit"
| "int_body_ok prev_digit (c # cs) =
     (if is_ascii_digit c then int_body_ok True cs
      else if c = CHR ''_'' \<and> prev_digit then int_body_ok False cs
      else False)"

definition is_int_space :: "char \<Rightarrow> bool" where
  \<comment> \<open>the characters \<open>int\<close> skips around a numeral: the ASCII white space of C, and the
      two white-space code points between 128 and 255, which it first turns into blanks\<close>
  "is_int_space c = (of_char c \<in> {9, 10, 11, 12, 13, 32, 133, 160 :: nat})"

definition int_strip :: "string \<Rightarrow> string" where
  "int_strip s = rev (dropWhile is_int_space (rev (dropWhile is_int_space s)))"

definition py_int :: "string \<Rightarrow> int option" where
  \<comment> \<open>\<open>int(s)\<close> in base 10; \<open>None\<close> is \<open>ValueError\<close>; the interpreter's limit on the
      number of digits is left out\<close>
  "py_int s = (let t = int_strip s;
                   (neg, body) = (case t of
                       c # cs \<Rightarrow> if c = CHR ''-'' then (True, cs)
                                 else if c = CHR ''+'' then (False, cs) else (False, t)
                     | [] \<Rightarrow> (False, []))
               in if int_body_ok False body
                  then (let v = int (digits_value 0 (filter is_ascii_digit body))
                        in Some (if neg then - v else v))
                  else None)"

subsection \<open>State of the executor\<close>

datatype pyint = PyInt int | PyBool bool

fun int_of :: "pyint \<Rightarrow> int" where
  "int_of (PyInt i) = i"
| "int_of (PyBool b) = (if b then 1 else 0)"

record history_entry =
  index :: pyint
  command :: string

datatype json =
    JNull
  | JBool bool
  | JInt int
  | JFloat string
  | JStr string
  | JList "json list"
  | JDict "(string \<times> json) list"

datatype file_content = Missing | Unreadable | Document json

datatype error = AttributeError | ValueError | IndexError | OSError

record shell =
  output_lines :: "string list"
  cwd :: string
  environ :: "string \<rightharpoonup> string"
  command_history :: "history_entry list"
  history_index :: int
  history_next_index :: pyint
  history_file :: string
  in_editor_mode :: bool
  in_pty_mode :: bool
  pty_partial_line :: string
  real_user :: string
  active_user :: string
  hostname :: string
  active_env :: "string option"
  active_env_type :: "string option"
  active_env_source :: "string option"
  disk :: "string \<Rightarrow> file_content"
  unwritable :: "string \<Rightarrow> bool"

definition deque_append :: "string list \<Rightarrow> string \<Rightarrow> string list" where
  \<comment> \<open>\<open>deque(maxlen=500).append\<close>: the oldest line leaves when the deque is full\<close>
  "deque_append q x = (let q' = q @ [x] in drop (length q' - 500) q')"

definition add_output :: "string \<Rightarrow> shell \<Rightarrow> shell" where
  "add_output text s = s\<lparr>output_lines := deque_append (output_lines s) text\<rparr>"

subsection \<open>History store\<close>

definition slice_last :: "int \<Rightarrow> 'a list \<Rightarrow> 'a list" where
  \<comment> \<open>\<open>xs[-m:]\<close>: the last \<open>m\<close> elements for positive \<open>m\<close>, \<open>xs[|m|:]\<close> for negative \<open>m\<close>\<close>
  "slice_last m xs = (if 0 < m then drop (length xs - nat m) xs else drop (nat (- m)) xs)"

definition trim_history :: "int \<Rightarrow> 'a list \<Rightarrow> 'a list" where
  \<comment> \<open>\<open>if max_history and len(xs) > max_history: xs = xs[-max_history:]\<close>\<close>
  "trim_history max_history xs =
     (if max_history \<noteq> 0 \<and> max_history < int (length xs) then slice_last max_history xs else xs)"

definition pyint_json :: "pyint \<Rightarrow> json" where
  "pyint_json v = (case v of PyInt i \<Rightarrow> JInt i | PyBool b \<Rightarrow> JBool b)"

definition entry_json :: "history_entry \<Rightarrow> json" where
  "entry_json e = JDict [(''index'', pyint_json (index e)), (''command'', JStr (command e))]"

definition history_payload :: "shell \<Rightarrow> json" where
  "history_payload s =
     JDict [(''next_index'', pyint_json (history_next_index s)),
            (''entries'', JList (map entry_json (command_history s)))]"

definition save_history :: "shell \<Rightarrow> shell" where
  "save_history s =
     (if history_file s = [] then s
      else if unwritable s (history_file s) then s
      else s\<lparr>disk := (disk s)(history_file s := Document (history_payload s))\<rparr>)"

definition as_pyint :: "json option \<Rightarrow> pyint option" where
  \<comment> \<open>\<open>isinstance(v, int)\<close>: integers, and booleans, which are integers in Python\<close>
  "as_pyint v = (case v of Some (JInt i) \<Rightarrow> Some (PyInt i) | Some (JBool b) \<Rightarrow> Some (PyBool b)
                 | _ \<Rightarrow> None)"

definition clean_entry :: "json \<Rightarrow> history_entry option" where
  "clean_entry entry =
     (case entry of
        JDict kv \<Rightarrow>
          (case (map_of kv ''command'', as_pyint (map_of kv ''index'')) of
             (Some (JStr c), Some i) \<Rightarrow> Some \<lparr>index = i, command = c\<rparr>
           | _ \<Rightarrow> None)
      | _ \<Rightarrow> None)"

definition max_index :: "history_entry list \<Rightarrow> int" where
  "max_index es = fold max (map (\<lambda>e. int_of (index e)) (tl es)) (int_of (index (hd es)))"

definition load_history :: "int \<Rightarrow> shell \<Rightarrow> error + shell" where
  "load_history max_history s =
     (if history_file s = [] then Inr s
      else case disk s (history_file s) of
        Missing \<Rightarrow> Inr s
      | Unreadable \<Rightarrow> Inr s
      | Document payload \<Rightarrow>
          (case payload of
             JDict kv \<Rightarrow>
               (case (case map_of kv ''entries'' of None \<Rightarrow> JList [] | Some v \<Rightarrow> v) of
                  JList entries \<Rightarrow>
                    (let cleaned = trim_history max_history (List.map_filter clean_entry entries);
                         s1 = s\<lparr>command_history := cleaned, history_index := int (length cleaned)\<rparr>
                     in case as_pyint (map_of kv ''next_index'') of
                          Some n \<Rightarrow>
                            if 0 < int_of n then Inr (s1\<lparr>history_next_index := n\<rparr>)
                            else if cleaned \<noteq> []
                            then Inr (s1\<lparr>history_next_index := PyInt (max_index cleaned + 1)\<rparr>)
                            else Inr s1
                        | None \<Rightarrow>
                            if cleaned \<noteq> []
                            then Inr (s1\<lparr>history_next_index := PyInt (max_index cleaned + 1)\<rparr>)
                            else Inr s1)
                | _ \<Rightarrow> Inr s)
           | _ \<Rightarrow> Inl AttributeError))"

definition add_history_entry :: "int \<Rightarrow> string \<Rightarrow> shell \<Rightarrow> shell" where
  "add_history_entry max_history cmd s =
     (let entry = \<lparr>index = history_next_index s, command = cmd\<rparr>;
          hist = trim_history max_history (command_history s @ [entry])
      in save_history
           (s\<lparr>history_next_index := PyInt (int_of (history_next_index s) + 1),
              command_history := hist,
              history_index := int (length hist)\<rparr>))"

definition clear_history :: "shell \<Rightarrow> shell" where
  "clear_history s =
     save_history (s\<lparr>command_history := [], history_index := - 1, history_next_index := PyInt 1\<rparr>)"


definition hist_inv :: "shell \<Rightarrow> bool" where
  "hist_inv s = list_all (\<lambda>e. int_of (index e) < int_of (history_next_index s)) (command_history s)"

fun add_all :: "(int \<times> string) list \<Rightarrow> shell \<Rightarrow> shell" where
  "add_all [] s = s"
| "add_all ((m, c) # ops) s = add_all ops (add_history_entry m c s)"


subsection \<open>A sample executor for the concrete instances\<close>

definition example_shell :: shell where
  "example_shell =
     \<lparr>output_lines = [], cwd = ''/home/ark'', environ = [''PATH'' \<mapsto> ''/usr/bin''],
      command_history = [], history_index = - 1, history_next_index = PyInt 1,
      history_file = ''command_history.json'', in_editor_mode = False, in_pty_mode = False,
      pty_partial_line = [], real_user = ''ark'', active_user = ''ark'', hostname = ''r36s'',
      active_env = None, active_env_type = None, active_env_source = None,
      disk = (\<lambda>_. Missing), unwritable = (\<lambda>_. False)\<rparr>"

subsection \<open>History references and the head of the command router\<close>



definition within_cap :: "int \<Rightarrow> 'a list \<Rightarrow> bool" where
  \<comment> \<open>the list is one that neither \<open>load_history\<close> nor \<open>add_history_entry\<close> would shorten\<close>
  "within_cap max_history xs = (max_history = 0 \<or> int (length xs) \<le> max_history)"

definition fresh_history :: "shell \<Rightarrow> bool" where
  \<comment> \<open>the history attributes as \<open>__init__\<close> sets them before it calls \<open>load_history\<close>\<close>
  "fresh_history s = (command_history s = [] \<and> history_next_index s = PyInt 1)"

inductive history_state :: "int \<Rightarrow> shell \<Rightarrow> bool" for max_history :: int where
  loaded: "fresh_history s \<Longrightarrow> load_history max_history s = Inr t \<Longrightarrow> history_state max_history t"
| added: "history_state max_history s \<Longrightarrow> history_state max_history (add_history_entry max_history c s)"
| cleared: "history_state max_history s \<Longrightarrow> history_state max_history (clear_history s)"


definition before_clear :: shell where
  "before_clear = add_all [(100, ''ls''), (100, ''history -c'')] example_shell"

definition after_clear :: shell where
  "after_clear = add_all [(100, ''pwd'')] (clear_history before_clear)"

definition loadable_counter :: "shell \<Rightarrow> bool" where
  \<comment> \<open>the counter is one that \<open>load_history\<close> gives back from the saved document\<close>
  "loadable_counter s =
     (0 < int_of (history_next_index s) \<or>
      (command_history s \<noteq> [] \<and>
       history_next_index s = PyInt (max_index (command_history s) + 1)))"

subsection \<open>Stripping control codes: \<open>strip_ansi_codes\<close>\<close>

definition ESC :: char where
  "ESC = CHR 0x1B"

definition in_range :: "nat \<Rightarrow> nat \<Rightarrow> char \<Rightarrow> bool" where
  \<comment> \<open>a character class \<open>[a-b]\<close> of a regular expression, by code point\<close>
  "in_range lo hi c = (lo \<le> of_char c \<and> (of_char c :: nat) \<le> hi)"

definition match_ansi :: "string \<Rightarrow> nat option" where
  \<comment> \<open>length of the match of \<open>\x1B(?:[@-Z\\-_]|\[[0-?]*[ -/]*[@-~])\<close> at the head of the text;
      the three classes of the second branch are disjoint, so the greedy runs never back off\<close>
  "match_ansi s =
     (case s of
        e # d # ds \<Rightarrow>
          if e \<noteq> ESC then None
          else if in_range 0x40 0x5A d \<or> in_range 0x5C 0x5F d then Some 2
          else if d = CHR ''['' then
            (let r1 = dropWhile (in_range 0x30 0x3F) ds;
                 r2 = dropWhile (in_range 0x20 0x2F) r1
             in case r2 of
                  f # r3 \<Rightarrow> if in_range 0x40 0x7E f then Some (length s - length r3) else None
                | [] \<Rightarrow> None)
          else None
      | _ \<Rightarrow> None)"

definition match_osc :: "string \<Rightarrow> nat option" where
  \<comment> \<open>\<open>\x1B\][^\x07]*\x07\<close>\<close>
  "match_osc s =
     (case s of
        e # d # ds \<Rightarrow>
          if e = ESC \<and> d = CHR '']'' then
            (case dropWhile (\<lambda>c. c \<noteq> CHR 0x07) ds of
               b # r \<Rightarrow> Some (length s - length r)
             | [] \<Rightarrow> None)
          else None
      | _ \<Rightarrow> None)"

definition match_other :: "string \<Rightarrow> nat option" where
  \<comment> \<open>\<open>\x1B[P\]X^_][^\x1B\\]*(?:\x1B\\)?\<close>\<close>
  "match_other s =
     (case s of
        e # d # ds \<Rightarrow>
          if e = ESC \<and> d \<in> set ''P]X^_'' then
            (let r = dropWhile (\<lambda>c. c \<noteq> ESC \<and> c \<noteq> CHR 0x5C) ds
             in case r of
                  a # b # r' \<Rightarrow> if a = ESC \<and> b = CHR 0x5C then Some (length s - length r')
                                else Some (length s - length r)
                | _ \<Rightarrow> Some (length s - length r))
          else None
      | _ \<Rightarrow> None)"

fun re_sub_empty :: "(string \<Rightarrow> nat option) \<Rightarrow> nat \<Rightarrow> string \<Rightarrow> string" where
  \<comment> \<open>\<open>re.sub(pattern, '', text)\<close>: matches are found left to right and never overlap; the
      counter is the number of characters of the current match still to drop\<close>
  "re_sub_empty m k [] = []"
| "re_sub_empty m (Suc k) (c # cs) = re_sub_empty m k cs"
| "re_sub_empty m 0 (c # cs) =
     (case m (c # cs) of
        Some (Suc n) \<Rightarrow> re_sub_empty m n cs
      | _ \<Rightarrow> c # re_sub_empty m 0 cs)"

definition strip_ansi_codes :: "string \<Rightarrow> string" where
  "strip_ansi_codes text =
     (let t1 = re_sub_empty match_ansi 0 text;
          t2 = re_sub_empty match_osc 0 t1;
          t3 = re_sub_empty match_other 0 t2;
          t4 = filter (\<lambda>c. c \<noteq> CHR 0x0D) t3;
          t5 = filter (\<lambda>c. c \<noteq> CHR 0x07) t4
      in filter (\<lambda>c. 32 \<le> (of_char c :: nat) \<or> c = CHR 0x09 \<or> c = CHR 0x0A) t5)"

subsection \<open>The PTY reader: \<open>read_pty_output\<close>\<close>

record pty =
  current_line :: string
  cursor_pos :: int
  escape_buffer :: string
  in_escape :: bool

definition slice_to :: "int \<Rightarrow> 'a list \<Rightarrow> 'a list" where
  \<comment> \<open>\<open>xs[:i]\<close>, a negative \<open>i\<close> counting from the end\<close>
  "slice_to i xs = (if 0 \<le> i then take (nat i) xs else take (length xs - nat (- i)) xs)"

definition set_item :: "'a list \<Rightarrow> int \<Rightarrow> 'a \<Rightarrow> error + 'a list" where
  \<comment> \<open>\<open>xs[i] = v\<close>, a negative \<open>i\<close> counting from the end\<close>
  "set_item xs i v =
     (if 0 \<le> i \<and> i < int (length xs) then Inr (xs[nat i := v])
      else if i < 0 \<and> - i \<le> int (length xs) then Inr (xs[length xs - nat (- i) := v])
      else Inl IndexError)"

definition apply_escape_sequence :: "string \<Rightarrow> pty \<Rightarrow> pty" where
  "apply_escape_sequence sequence p =
     (if sequence = ESC # ''[D'' \<or> sequence = ESC # ''OD''
      then p\<lparr>cursor_pos := max 0 (cursor_pos p - 1)\<rparr>
      else if sequence = ESC # ''[C'' \<or> sequence = ESC # ''OC''
      then p\<lparr>cursor_pos := min (int (length (current_line p))) (cursor_pos p + 1)\<rparr>
      else if prefix (ESC # ''['') sequence \<and> sequence \<noteq> [] \<and> last sequence \<in> set ''DCK''
      then
        (let params = butlast (drop 2 sequence);
             amount = (if params \<noteq> [] then (case py_int params of Some n \<Rightarrow> n | None \<Rightarrow> 1)
                       else 1)
         in if last sequence = CHR ''D''
            then p\<lparr>cursor_pos := max 0 (cursor_pos p - amount)\<rparr>
            else if last sequence = CHR ''C''
            then p\<lparr>cursor_pos := min (int (length (current_line p))) (cursor_pos p + amount)\<rparr>
            else p\<lparr>current_line := slice_to (cursor_pos p) (current_line p)\<rparr>)
      else p)"

definition commit_line :: "pty \<Rightarrow> shell \<Rightarrow> shell" where
  "commit_line p s =
     (let clean_line = strip_ansi_codes (current_line p)
      in if strip clean_line \<noteq> [] then add_output clean_line s else s)"

definition feed_char :: "char \<Rightarrow> pty \<times> shell \<Rightarrow> error + pty \<times> shell" where
  \<comment> \<open>the body of \<open>for char in text\<close>\<close>
  "feed_char c ps =
     (let p = fst ps; s = snd ps in
      if in_escape p then
        (let buf = escape_buffer p @ [c] in
         if isalpha_char c \<or> c = CHR ''~'' \<or> c = CHR ''m''
         then Inr ((apply_escape_sequence buf p)\<lparr>escape_buffer := [], in_escape := False\<rparr>, s)
         else Inr (p\<lparr>escape_buffer := buf\<rparr>, s))
      else if c = ESC then Inr (p\<lparr>in_escape := True, escape_buffer := [c]\<rparr>, s)
      else if c = CHR 0x0A then Inr (p\<lparr>current_line := [], cursor_pos := 0\<rparr>, commit_line p s)
      else if c = CHR 0x0D then Inr (p\<lparr>cursor_pos := 0\<rparr>, s)
      else if c = CHR 0x08 \<or> c = CHR 0x7F then Inr (p\<lparr>cursor_pos := max 0 (cursor_pos p - 1)\<rparr>, s)
      else if cursor_pos p < int (length (current_line p)) then
        (case set_item (current_line p) (cursor_pos p) c of
           Inl e \<Rightarrow> Inl e
         | Inr line \<Rightarrow> Inr (p\<lparr>current_line := line, cursor_pos := cursor_pos p + 1\<rparr>, s))
      else Inr (p\<lparr>current_line := current_line p @ [c], cursor_pos := cursor_pos p + 1\<rparr>, s))"

fun feed_text :: "string \<Rightarrow> pty \<times> shell \<Rightarrow> error + pty \<times> shell" where
  "feed_text [] ps = Inr ps"
| "feed_text (c # cs) ps = (case feed_char c ps of Inl e \<Rightarrow> Inl e | Inr ps' \<Rightarrow> feed_text cs ps')"

definition cleanup_pty :: "shell \<Rightarrow> shell" where
  \<comment> \<open>of the attributes embedded here, the method resets the mode and the partial line\<close>
  "cleanup_pty s =
     add_output ''[System] Exited interactive mode'' (s\<lparr>in_pty_mode := False, pty_partial_line := []\<rparr>)"

definition finish_pty :: "pty \<times> shell \<Rightarrow> shell" where
  \<comment> \<open>the statements after the \<open>while\<close> loop: flush what is left, then clean up\<close>
  "finish_pty ps =
     (let p = fst ps; s = snd ps;
          s1 = (if current_line p \<noteq> [] then commit_line p s else s)
      in cleanup_pty (s1\<lparr>pty_partial_line := []\<rparr>))"

fun read_chunks :: "string list \<Rightarrow> pty \<times> shell \<Rightarrow> error + shell" where
  \<comment> \<open>the \<open>while\<close> loop over the chunks \<open>os.read\<close> delivers, already decoded; an empty chunk is
      the end of the stream; an exception other than \<open>OSError\<close> leaves the method\<close>
  "read_chunks [] ps = Inr (finish_pty ps)"
| "read_chunks (text # chunks) ps =
     (if text = [] then Inr (finish_pty ps)
      else case feed_text text ps of
             Inl e \<Rightarrow> Inl e
           | Inr (p, s) \<Rightarrow>
               read_chunks chunks (p, s\<lparr>pty_partial_line := strip_ansi_codes (current_line p)\<rparr>))"

definition read_pty_output :: "string list \<Rightarrow> shell \<Rightarrow> error + shell" where
  "read_pty_output chunks s =
     read_chunks chunks
       (\<lparr>current_line = pty_partial_line s, cursor_pos = int (length (pty_partial_line s)),
         escape_buffer = [], in_escape = False\<rparr>, s)"

definition cursor_in_bounds :: "pty \<Rightarrow> bool" where
  "cursor_in_bounds p = (0 \<le> cursor_pos p \<and> cursor_pos p \<le> int (length (current_line p)))"

definition hello_pty :: pty where
  "hello_pty = \<lparr>current_line = ''hello'', cursor_pos = 5, escape_buffer = [], in_escape = False\<rparr>"

definition empty_pty :: pty where
  "empty_pty = \<lparr>current_line = [], cursor_pos = 0, escape_buffer = [], in_escape = False\<rparr>"

definition nonneg_amount :: "string \<Rightarrow> bool" where
  \<comment> \<open>the parameter of the escape sequence does not read as a negative number\<close>
  "nonneg_amount sequence =
     (case py_int (butlast (drop 2 sequence)) of Some n \<Rightarrow> 0 \<le> n | None \<Rightarrow> True)"

subsection \<open>What the operating system answers\<close>

datatype run_result =
    Raised string
  | Completed int string string

text \<open>
  \<open>Raised e\<close> is \<open>subprocess.run\<close> raising an exception whose text is \<open>e\<close>;
  \<open>Completed rc out err\<close> is its normal return with the exit status and the two captured
  streams.
\<close>

record host =
  euid :: nat
  which :: "string \<Rightarrow> string option"
  expanduser :: "string \<Rightarrow> string"
  isdir :: "string \<Rightarrow> bool"
  access_x :: "string \<Rightarrow> bool"
  chdir_error :: "string \<Rightarrow> string option"
  path_exists :: "string \<Rightarrow> bool"
  decode :: "string \<Rightarrow> string"

text \<open>
  \<open>which\<close> is \<open>shutil.which\<close>, \<open>chdir_error d\<close> is the text of the exception \<open>os.chdir(d)\<close>
  raises, if it raises, and \<open>decode\<close> is \<open>bytes.decode('utf-8', errors='replace')\<close>.
\<close>

definition truthy :: "string option \<Rightarrow> bool" where
  \<comment> \<open>Python truth of a value that is \<open>None\<close> or a string\<close>
  "truthy v = (case v of None \<Rightarrow> False | Some x \<Rightarrow> x \<noteq> [])"

subsection \<open>Environment probe\<close>

definition basename :: "string \<Rightarrow> string" where
  "basename p = rev (takeWhile (\<lambda>c. c \<noteq> CHR ''/'') (rev p))"

definition path_join :: "string \<Rightarrow> string \<Rightarrow> string" where
  \<comment> \<open>\<open>os.path.join(a, b)\<close> on POSIX\<close>
  "path_join a b =
     (if prefix ''/'' b then b
      else if a = [] \<or> last a = CHR ''/'' then a @ b
      else a @ ''/'' @ b)"

definition refresh_env_state :: "host \<Rightarrow> shell \<Rightarrow> shell" where
  "refresh_env_state h s =
     (let conda_env = environ s ''CONDA_DEFAULT_ENV'';
          venv_path = environ s ''VIRTUAL_ENV''
      in if truthy conda_env
         then s\<lparr>active_env := conda_env, active_env_type := Some ''conda''\<rparr>
         else if truthy venv_path
         then (let s1 = s\<lparr>active_env := Some (basename (the venv_path)),
                            active_env_type := Some ''venv''\<rparr>;
                   activate_path = path_join (path_join (the venv_path) ''bin'') ''activate''
               in if \<not> truthy (active_env_source s1) \<and> path_exists h activate_path
                  then s1\<lparr>active_env_source := Some activate_path\<rparr>
                  else s1)
         else s\<lparr>active_env := None, active_env_type := None\<rparr>)"

fun split_on :: "'a \<Rightarrow> 'a list \<Rightarrow> 'a list list" where
  \<comment> \<open>\<open>bytes.split(sep)\<close> for a separator of one byte\<close>
  "split_on sep [] = [[]]"
| "split_on sep (x # xs) =
     (if x = sep then [] # split_on sep xs
      else (case split_on sep xs of y # ys \<Rightarrow> (x # y) # ys | [] \<Rightarrow> [[x]]))"

definition dict_set :: "'k \<Rightarrow> 'v \<Rightarrow> ('k \<times> 'v) list \<Rightarrow> ('k \<times> 'v) list" where
  \<comment> \<open>\<open>d[k] = v\<close> on the items of a dict: a key already present keeps its place\<close>
  "dict_set k v d =
     (if k \<in> fst ` set d then map (\<lambda>(k', v'). if k' = k then (k', v) else (k', v')) d
      else d @ [(k, v)])"

fun parse_env :: "(string \<Rightarrow> string) \<Rightarrow> string list \<Rightarrow> (string \<times> string) list \<Rightarrow> (string \<times> string) list"
where
  \<comment> \<open>the loop that fills \<open>new_env\<close>: empty items and items without \<open>=\<close> are skipped\<close>
  "parse_env dec [] d = d"
| "parse_env dec (item # items) d =
     (if item = [] \<or> CHR ''='' \<notin> set item then parse_env dec items d
      else parse_env dec items
             (dict_set (dec (takeWhile (\<lambda>c. c \<noteq> CHR ''='') item))
                       (dec (tl (dropWhile (\<lambda>c. c \<noteq> CHR ''='') item))) d))"

fun set_environ :: "(string \<times> string) list \<Rightarrow> shell \<Rightarrow> error + shell" where
  \<comment> \<open>\<open>os.environ[key] = value\<close> for each item: a NUL in the name or the value and an \<open>=\<close>
      in the name raise \<open>ValueError\<close>, and for an empty name \<open>setenv\<close> fails with \<open>EINVAL\<close>,
      which is raised as \<open>OSError\<close>\<close>
  "set_environ [] s = Inr s"
| "set_environ ((k, v) # kvs) s =
     (if CHR 0x00 \<in> set k \<or> CHR 0x00 \<in> set v \<or> CHR ''='' \<in> set k then Inl ValueError
      else if k = [] then Inl OSError
      else set_environ kvs (s\<lparr>environ := (environ s)(k \<mapsto> v)\<rparr>))"

definition apply_shell_environment ::
  "host \<Rightarrow> run_result \<Rightarrow> string \<Rightarrow> shell \<Rightarrow> error + bool \<times> shell" where
  \<comment> \<open>the second argument is what \<open>subprocess.run\<close> did with the wrapped shell command\<close>
  "apply_shell_environment h p description s =
     (case p of
        Raised e \<Rightarrow> Inr (False, add_output (''[Error] '' @ description @ '': '' @ e) s)
      | Completed returncode out errout \<Rightarrow>
          if returncode \<noteq> 0 then
            (let err = strip (decode h errout)
             in Inr (False, add_output (''[Error] '' @ description @ '' failed (exit ''
                       @ str_int returncode @ '')'' @ (if err \<noteq> [] then '': '' @ err else [])) s))
          else if CHR 0x0A \<notin> set out then
            Inr (False, add_output (''[Error] '' @ description @ '': unexpected output'') s)
          else
            (let pwd_line = strip (decode h (takeWhile (\<lambda>c. c \<noteq> CHR 0x0A) out));
                 env_blob = tl (dropWhile (\<lambda>c. c \<noteq> CHR 0x0A) out);
                 new_cwd = drop 7 pwd_line;
                 s1 = (if prefix ''__PWD__'' pwd_line \<and> new_cwd \<noteq> [] then
                         (case chdir_error h new_cwd of
                            None \<Rightarrow> s\<lparr>cwd := new_cwd\<rparr>
                          | Some e \<Rightarrow> add_output (''[Error] Could not chdir to '' @ [CHR 0x27]
                                        @ new_cwd @ [CHR 0x27] @ '': '' @ e) (s\<lparr>cwd := new_cwd\<rparr>))
                       else s);
                 new_env = parse_env (decode h) (split_on (CHR 0x00) env_blob) [];
                 s2 = s1\<lparr>environ := environ s1 |` (fst ` set new_env)\<rparr>
             in case set_environ new_env s2 of
                  Inl e \<Rightarrow> Inl e
                | Inr s3 \<Rightarrow> Inr (True, refresh_env_state h s3)))"

subsection \<open>Alias resolution\<close>

datatype lex_state = Between | InWord | InQuote char | Escaped bool

fun shlex_tokens :: "lex_state \<Rightarrow> string \<Rightarrow> string \<Rightarrow> string list option" where
  \<comment> \<open>the token reader of \<open>shlex\<close> in POSIX mode with \<open>whitespace_split\<close> and no comment
      characters; the second argument is the token read so far; \<open>Escaped b\<close> is the state
      after a backslash, \<open>b\<close> telling whether it stands inside double quotes; \<open>None\<close> is the
      \<open>ValueError\<close> for a quotation left open or a backslash at the end\<close>
  "shlex_tokens Between tok [] = Some []"
| "shlex_tokens InWord tok [] = Some [tok]"
| "shlex_tokens (InQuote q) tok [] = None"
| "shlex_tokens (Escaped b) tok [] = None"
| "shlex_tokens Between tok (c # cs) =
     (if c \<in> set [CHR '' '', CHR 0x09, CHR 0x0D, CHR 0x0A] then shlex_tokens Between [] cs
      else if c = CHR 0x5C then shlex_tokens (Escaped False) [] cs
      else if c = CHR 0x27 \<or> c = CHR 0x22 then shlex_tokens (InQuote c) [] cs
      else shlex_tokens InWord [c] cs)"
| "shlex_tokens InWord tok (c # cs) =
     (if c \<in> set [CHR '' '', CHR 0x09, CHR 0x0D, CHR 0x0A]
      then map_option (Cons tok) (shlex_tokens Between [] cs)
      else if c = CHR 0x27 \<or> c = CHR 0x22 then shlex_tokens (InQuote c) tok cs
      else if c = CHR 0x5C then shlex_tokens (Escaped False) tok cs
      else shlex_tokens InWord (tok @ [c]) cs)"
| "shlex_tokens (InQuote q) tok (c # cs) =
     (if c = q then shlex_tokens InWord tok cs
      else if c = CHR 0x5C \<and> q = CHR 0x22 then shlex_tokens (Escaped True) tok cs
      else shlex_tokens (InQuote q) (tok @ [c]) cs)"
| "shlex_tokens (Escaped b) tok (c # cs) =
     (let tok' = (if b \<and> c \<noteq> CHR 0x5C \<and> c \<noteq> CHR 0x22 then tok @ [CHR 0x5C] else tok) @ [c]
      in if b then shlex_tokens (InQuote (CHR 0x22)) tok' cs else shlex_tokens InWord tok' cs)"

definition shlex_split :: "string \<Rightarrow> string list option" where
  "shlex_split s = shlex_tokens Between [] s"

definition alias_map :: "(string \<times> string) list" where
  "alias_map = [(''py'', ''python3''), (''python'', ''python3''),
                (''ipy'', ''ipython3''), (''ipython'', ''ipython3'')]"

definition resolve_command_alias :: "host \<Rightarrow> string \<Rightarrow> string \<times> (string \<times> string) option" where
  \<comment> \<open>the second component is the alias note, kept as the pair of names it is built from\<close>
  "resolve_command_alias h cmd =
     (let stripped = lstrip cmd in
      if stripped = [] then (cmd, None)
      else if hd stripped = CHR 0x27 \<or> hd stripped = CHR 0x22 then (cmd, None)
      else case shlex_split stripped of
             None \<Rightarrow> (cmd, None)
           | Some [] \<Rightarrow> (cmd, None)
           | Some (first # rest) \<Rightarrow>
               (case map_of alias_map first of
                  None \<Rightarrow> (cmd, None)
                | Some target \<Rightarrow>
                    if truthy (which h first) then (cmd, None)
                    else if \<not> truthy (which h target) then (cmd, None)
                    else (take (length cmd - length stripped) cmd @ target
                            @ drop (length first) stripped,
                          Some (first, target))))"

subsection \<open>User switching\<close>




definition example_host :: host where
  "example_host =
     \<lparr>euid = 1000,
      which = (\<lambda>n. if n = ''python3'' then Some ''/usr/bin/python3''
                    else if n = ''sudo'' then Some ''/usr/bin/sudo'' else None),
      expanduser = (\<lambda>p. ''/home/'' @ drop 1 p),
      isdir = (\<lambda>p. True), access_x = (\<lambda>p. True), chdir_error = (\<lambda>p. None),
      path_exists = (\<lambda>p. False), decode = (\<lambda>b. b)\<rparr>"



definition probe_failed :: "run_result \<Rightarrow> bool" where
  \<comment> \<open>the probe could not be run, left with a nonzero status, or printed no complete line\<close>
  "probe_failed p =
     (case p of
        Raised e \<Rightarrow> True
      | Completed returncode out errout \<Rightarrow> returncode \<noteq> 0 \<or> CHR 0x0A \<notin> set out)"

subsection \<open>Facts about the history store\<close>

lemma set_trim_history: "set (trim_history m xs) \<subseteq> set xs"
  by (auto simp: trim_history_def slice_last_def dest: in_set_dropD)

lemma save_history_fields [simp]:
  "command_history (save_history s) = command_history s"
  "history_next_index (save_history s) = history_next_index s"
  "history_index (save_history s) = history_index s"
  "output_lines (save_history s) = output_lines s"
  "history_file (save_history s) = history_file s"
  by (simp_all add: save_history_def)

lemma add_history_entry_fields:
  "command_history (add_history_entry m c s) =
     trim_history m (command_history s @ [\<lparr>index = history_next_index s, command = c\<rparr>])"
  "history_next_index (add_history_entry m c s) = PyInt (int_of (history_next_index s) + 1)"
  by (simp_all add: add_history_entry_def Let_def)

lemma trimmed_entry_cases:
  "e \<in> set (trim_history m (command_history s @ [n])) \<Longrightarrow> e \<in> set (command_history s) \<or> e = n"
  using set_trim_history [of m "command_history s @ [n]"] by auto

lemma hist_inv_addI:
  "(\<And>e. e \<in> set (trim_history m
        (command_history s @ [\<lparr>index = history_next_index s, command = c\<rparr>])) \<Longrightarrow>
      int_of (index e) < int_of (history_next_index s) + 1) \<Longrightarrow>
   hist_inv (add_history_entry m c s)"
  by (simp add: hist_inv_def list_all_iff add_history_entry_fields)

lemma hist_inv_add: "hist_inv s \<Longrightarrow> hist_inv (add_history_entry m c s)"
proof (rule hist_inv_addI)
  fix e
  assume inv: "hist_inv s"
    and e: "e \<in> set (trim_history m
        (command_history s @ [\<lparr>index = history_next_index s, command = c\<rparr>]))"
  from trimmed_entry_cases [OF e] show "int_of (index e) < int_of (history_next_index s) + 1"
  proof
    assume "e \<in> set (command_history s)"
    with inv have "int_of (index e) < int_of (history_next_index s)"
      by (simp add: hist_inv_def list_all_iff)
    then show ?thesis by simp
  next
    assume "e = \<lparr>index = history_next_index s, command = c\<rparr>"
    then show ?thesis by simp
  qed
qed

text \<open>
  Claim C3. Starting from a store whose counter exceeds every stored index (the fresh store
  is one), any sequence of \<open>add_history_entry\<close> calls, each trimming with whatever
  retention cap is configured at that moment, ends in a store whose counter again exceeds
  every stored index; and the counter has grown by exactly the number of appends, whatever
  the trims dropped.
\<close>

theorem history_index_monotonic:
  "hist_inv s \<Longrightarrow>
     hist_inv (add_all ops s) \<and>
     int_of (history_next_index (add_all ops s)) = int_of (history_next_index s) + int (length ops)"
proof (induction ops arbitrary: s)
  case Nil
  then show ?case by simp
next
  case (Cons op ops)
  obtain m c where op: "op = (m, c)" by (cases op)
  from Cons.prems have "hist_inv (add_history_entry m c s)" by (rule hist_inv_add)
  from Cons.IH [OF this] show ?case
    by (simp add: op add_history_entry_fields)
qed

lemma add_all_same_store:
  "command_history s = command_history t \<Longrightarrow> history_next_index s = history_next_index t \<Longrightarrow>
     command_history (add_all ops s) = command_history (add_all ops t) \<and>
     history_next_index (add_all ops s) = history_next_index (add_all ops t)"
proof (induction ops arbitrary: s t)
  case Nil
  then show ?case by simp
next
  case (Cons op ops)
  obtain m c where op: "op = (m, c)" by (cases op)
  have "command_history (add_history_entry m c s) = command_history (add_history_entry m c t)"
    and "history_next_index (add_history_entry m c s) = history_next_index (add_history_entry m c t)"
    using Cons.prems by (simp_all add: add_history_entry_fields)
  from Cons.IH [OF this] show ?case by (simp add: op)
qed

text \<open>
  Claim C10. \<open>clear_history\<close> empties the entries and sets the counter back to 1, so the
  commands entered after a clear are stored under exactly the indices a fresh store
  (empty, counter 1) gives them: the values assigned before the clear are used again.
\<close>

theorem clear_history_reuses_indices:
  assumes "command_history s0 = []" and "history_next_index s0 = PyInt 1"
  shows "history_next_index (clear_history s) = PyInt 1 \<and>
         command_history (clear_history s) = [] \<and>
         command_history (add_all ops (clear_history s)) = command_history (add_all ops s0)"
proof -
  have c: "command_history (clear_history s) = command_history s0"
    and n: "history_next_index (clear_history s) = history_next_index s0"
    using assms by (simp_all add: clear_history_def)
  from add_all_same_store [OF c n] c n assms show ?thesis by simp
qed

lemma example_shell_history:
  "command_history example_shell = []" "history_next_index example_shell = PyInt 1"
  by (simp_all add: example_shell_def)

theorem history_index_monotonic_witness:
  "hist_inv example_shell \<and>
   hist_inv (add_all [(2, ''ls''), (2, ''pwd''), (2, ''id'')] example_shell) \<and>
   int_of (history_next_index (add_all [(2, ''ls''), (2, ''pwd''), (2, ''id'')] example_shell)) = 4 \<and>
   map (\<lambda>e. int_of (index e))
     (command_history (add_all [(2, ''ls''), (2, ''pwd''), (2, ''id'')] example_shell)) = [2, 3]"
proof -
  have h: "hist_inv example_shell"
    by (simp add: hist_inv_def example_shell_history)
  have kept: "map (\<lambda>e. int_of (index e))
      (command_history (add_all [(2, ''ls''), (2, ''pwd''), (2, ''id'')] example_shell)) = [2, 3]"
    by (simp add: add_history_entry_fields example_shell_history trim_history_def slice_last_def)
  from history_index_monotonic [OF h, of "[(2, ''ls''), (2, ''pwd''), (2, ''id'')]"]
  have "hist_inv (add_all [(2, ''ls''), (2, ''pwd''), (2, ''id'')] example_shell)"
    and "int_of (history_next_index (add_all [(2, ''ls''), (2, ''pwd''), (2, ''id'')] example_shell)) = 4"
    by (simp_all add: example_shell_history)
  with h kept show ?thesis by blast
qed

theorem clear_history_reuses_indices_witness:
  "command_history example_shell = [] \<and> history_next_index example_shell = PyInt 1 \<and>
   map (\<lambda>e. int_of (index e))
     (command_history (add_all [(100, ''id''), (100, ''pwd'')] example_shell)) = [1, 2] \<and>
   map (\<lambda>e. int_of (index e))
     (command_history (add_all [(100, ''ls'')]
        (clear_history (add_all [(100, ''id''), (100, ''pwd'')] example_shell)))) = [1]"
proof -
  have before: "map (\<lambda>e. int_of (index e))
      (command_history (add_all [(100, ''id''), (100, ''pwd'')] example_shell)) = [1, 2]"
    by (simp add: add_history_entry_fields example_shell_history trim_history_def slice_last_def)
  have fresh: "map (\<lambda>e. int_of (index e))
      (command_history (add_all [(100, ''ls'')] example_shell)) = [1]"
    by (simp add: add_history_entry_fields example_shell_history trim_history_def slice_last_def)
  from clear_history_reuses_indices [OF example_shell_history,
      of "add_all [(100, ''id''), (100, ''pwd'')] example_shell" "[(100, ''ls'')]"]
  have "command_history (add_all [(100, ''ls'')]
          (clear_history (add_all [(100, ''id''), (100, ''pwd'')] example_shell)))
        = command_history (add_all [(100, ''ls'')] example_shell)"
    by blast
  with fresh have "map (\<lambda>e. int_of (index e))
     (command_history (add_all [(100, ''ls'')]
        (clear_history (add_all [(100, ''id''), (100, ''pwd'')] example_shell)))) = [1]"
    by simp
  with before example_shell_history show ?thesis by blast
qed
subsection \<open>History references\<close>












lemma add_output_fields [simp]:
  "command_history (add_output t s) = command_history s"
  "history_next_index (add_output t s) = history_next_index s"
  "in_editor_mode (add_output t s) = in_editor_mode s"
  "in_pty_mode (add_output t s) = in_pty_mode s"
  "cwd (add_output t s) = cwd s"
  "environ (add_output t s) = environ s"
  "active_user (add_output t s) = active_user s"
  "output_lines (add_output t s) = deque_append (output_lines s) t"
  by (simp_all add: add_output_def)

lemma save_history_modes [simp]:
  "in_editor_mode (save_history s) = in_editor_mode s"
  "in_pty_mode (save_history s) = in_pty_mode s"
  by (simp_all add: save_history_def)

lemma add_history_entry_modes [simp]:
  "in_editor_mode (add_history_entry m c s) = in_editor_mode s"
  "in_pty_mode (add_history_entry m c s) = in_pty_mode s"
  by (simp_all add: add_history_entry_def Let_def)

lemma clear_history_fields [simp]:
  "command_history (clear_history s) = []"
  "history_next_index (clear_history s) = PyInt 1"
  "in_editor_mode (clear_history s) = in_editor_mode s"
  "in_pty_mode (clear_history s) = in_pty_mode s"
  by (simp_all add: clear_history_def)

lemma example_shell_modes: "\<not> in_editor_mode example_shell" "\<not> in_pty_mode example_shell"
  by (simp_all add: example_shell_def)





lemma after_clear_fields:
  "command_history after_clear = [\<lparr>index = PyInt 1, command = ''pwd''\<rparr>]"
  "history_next_index after_clear = PyInt 2"
  "\<not> in_editor_mode after_clear"
  "\<not> in_pty_mode after_clear"
  by (simp_all add: after_clear_def before_clear_def add_history_entry_fields example_shell_modes
      trim_history_def slice_last_def)




subsection \<open>Saving and reloading the history document\<close>

lemma as_pyint_json [simp]: "as_pyint (Some (pyint_json v)) = Some v"
  by (cases v) (simp_all add: as_pyint_def pyint_json_def)

lemma clean_entry_json [simp]: "clean_entry (entry_json e) = Some e"
  by (simp add: clean_entry_def entry_json_def)

lemma map_filter_clean: "List.map_filter clean_entry (map entry_json es) = es"
  by (induction es) (simp_all add: List.map_filter_simps)

lemma trim_within_cap: "within_cap m xs \<Longrightarrow> trim_history m xs = xs"
  by (auto simp: within_cap_def trim_history_def)

lemma within_cap_nonneg: "within_cap m xs \<Longrightarrow> 0 \<le> m"
  by (auto simp: within_cap_def)

lemma load_saved_document:
  assumes hf: "history_file t \<noteq> []"
    and doc: "disk t (history_file t) = Document (history_payload s)"
    and cap: "within_cap m (command_history s)"
    and cnt: "loadable_counter s"
  shows "load_history m t =
     Inr (t\<lparr>command_history := command_history s,
            history_index := int (length (command_history s)),
            history_next_index := history_next_index s\<rparr>)"
proof -
  have ent: "map_of [(''next_index'', pyint_json (history_next_index s)),
                     (''entries'', JList (map entry_json (command_history s)))] ''entries''
             = Some (JList (map entry_json (command_history s)))"
    by simp
  have nxt: "map_of [(''next_index'', pyint_json (history_next_index s)),
                     (''entries'', JList (map entry_json (command_history s)))] ''next_index''
             = Some (pyint_json (history_next_index s))"
    by simp
  have cleaned: "trim_history m (List.map_filter clean_entry (map entry_json (command_history s)))
                 = command_history s"
    by (simp only: map_filter_clean trim_within_cap [OF cap])
  show ?thesis
  proof (cases "0 < int_of (history_next_index s)")
    case True
    then show ?thesis
      unfolding load_history_def history_payload_def
      using hf doc
      by (simp only: history_payload_def file_content.case json.case ent nxt option.case
            cleaned Let_def as_pyint_json if_True if_False) 
  next
    case False
    with cnt have ne: "command_history s \<noteq> []"
      and eq: "history_next_index s = PyInt (max_index (command_history s) + 1)"
      by (simp_all add: loadable_counter_def)
    from False ne eq [symmetric] show ?thesis
      unfolding load_history_def history_payload_def
      using hf doc
      by (simp only: history_payload_def file_content.case json.case ent nxt option.case
            cleaned Let_def as_pyint_json if_True if_False not_False_eq_True)
  qed
qed

lemma max_index_Max:
  "es \<noteq> [] \<Longrightarrow> max_index es = Max (set (map (\<lambda>e. int_of (index e)) es))"
proof (cases es)
  case Nil
  assume "es \<noteq> []"
  with Nil show ?thesis by simp
next
  case (Cons e es')
  then show ?thesis
    by (simp only: max_index_def list.sel list.map Max.set_eq_fold)
qed

lemma max_index_snoc:
  assumes "\<forall>e \<in> set xs. int_of (index e) \<le> int_of (index x)"
  shows "max_index (xs @ [x]) = int_of (index x)"
proof -
  have "Max (set (map (\<lambda>e. int_of (index e)) (xs @ [x]))) = int_of (index x)"
  proof (rule Max_eqI)
    show "finite (set (map (\<lambda>e. int_of (index e)) (xs @ [x])))" by simp
    show "int_of (index x) \<in> set (map (\<lambda>e. int_of (index e)) (xs @ [x]))" by simp
    fix y
    assume "y \<in> set (map (\<lambda>e. int_of (index e)) (xs @ [x]))"
    then have "y = int_of (index x) \<or> (\<exists>e \<in> set xs. y = int_of (index e))" by auto
    with assms show "y \<le> int_of (index x)" by auto
  qed
  then show ?thesis by (simp add: max_index_Max)
qed

lemma max_index_ge:
  "e \<in> set es \<Longrightarrow> int_of (index e) \<le> max_index es"
proof -
  assume e: "e \<in> set es"
  then have ne: "es \<noteq> []" by auto
  from e have "int_of (index e) \<in> set (map (\<lambda>e. int_of (index e)) es)" by simp
  then have "int_of (index e) \<le> Max (set (map (\<lambda>e. int_of (index e)) es))"
    by (intro Max_ge) simp_all
  with ne show ?thesis by (simp add: max_index_Max)
qed

lemma trim_history_snoc:
  "0 \<le> m \<Longrightarrow> \<exists>k. trim_history m (xs @ [x]) = drop k xs @ [x]"
proof -
  assume m: "0 \<le> m"
  show ?thesis
  proof (cases "m \<noteq> 0 \<and> m < int (length (xs @ [x]))")
    case True
    with m have pos: "0 < m" by simp
    then have z: "Suc 0 - nat m = 0" by simp
    from True pos have "trim_history m (xs @ [x]) = drop (length xs + 1 - nat m) xs @ [x]"
      by (simp add: trim_history_def slice_last_def z)
    then show ?thesis by blast
  next
    case False
    then have "\<not> (m \<noteq> 0 \<and> m < int (length (xs @ [x])))" .
    then have "trim_history m (xs @ [x]) = xs @ [x]"
      unfolding trim_history_def by (rule if_not_P)
    then have "trim_history m (xs @ [x]) = drop 0 xs @ [x]" by simp
    then show ?thesis by blast
  qed
qed

lemma loadable_add:
  assumes m: "0 \<le> m" and l: "loadable_counter s"
  shows "loadable_counter (add_history_entry m c s)"
proof (cases "0 < int_of (history_next_index s)")
  case True
  then show ?thesis by (simp add: loadable_counter_def add_history_entry_fields)
next
  case False
  with l have ne: "command_history s \<noteq> []"
    and eq: "history_next_index s = PyInt (max_index (command_history s) + 1)"
    by (simp_all add: loadable_counter_def)
  define new where "new = \<lparr>index = history_next_index s, command = c\<rparr>"
  from trim_history_snoc [OF m, of "command_history s" new] obtain k
    where k: "trim_history m (command_history s @ [new]) = drop k (command_history s) @ [new]"
    by blast
  have idx: "int_of (index new) = max_index (command_history s) + 1"
    by (simp add: new_def eq)
  have "\<forall>e \<in> set (drop k (command_history s)). int_of (index e) \<le> int_of (index new)"
  proof
    fix e
    assume "e \<in> set (drop k (command_history s))"
    then have "e \<in> set (command_history s)" by (rule in_set_dropD)
    then have "int_of (index e) \<le> max_index (command_history s)" by (rule max_index_ge)
    with idx show "int_of (index e) \<le> int_of (index new)" by simp
  qed
  then have mx: "max_index (drop k (command_history s) @ [new]) = int_of (index new)"
    by (rule max_index_snoc)
  have hist: "command_history (add_history_entry m c s) = drop k (command_history s) @ [new]"
    by (simp only: add_history_entry_fields k [unfolded new_def] new_def)
  have nxt: "history_next_index (add_history_entry m c s) = PyInt (int_of (index new) + 1)"
    by (simp add: add_history_entry_fields new_def)
  show ?thesis
    unfolding loadable_counter_def hist nxt mx by simp
qed

lemma loadable_clear: "loadable_counter (clear_history s)"
  by (simp add: loadable_counter_def)

lemma loadable_loaded:
  assumes "fresh_history s" and "load_history m s = Inr t"
  shows "loadable_counter t"
proof -
  from assms(1) have s: "loadable_counter s" "history_next_index s = PyInt 1"
    by (simp_all add: fresh_history_def loadable_counter_def)
  from assms(2) s show ?thesis
    by (auto simp: load_history_def loadable_counter_def Let_def
        split: if_splits file_content.splits json.splits option.splits)
qed

lemma history_state_loadable: "history_state m s \<Longrightarrow> 0 \<le> m \<Longrightarrow> loadable_counter s"
proof (induction rule: history_state.induct)
  case (loaded s t)
  then show ?case by (simp add: loadable_loaded)
next
  case (added s c)
  then show ?case by (simp add: loadable_add)
next
  case (cleared s)
  show ?case by (rule loadable_clear)
qed

lemma save_history_file [simp]:
  "history_file (save_history s) = history_file s"
  "unwritable (save_history s) = unwritable s"
  by (simp_all add: save_history_def)

lemma add_history_entry_file [simp]:
  "history_file (add_history_entry m c s) = history_file s"
  "unwritable (add_history_entry m c s) = unwritable s"
  by (simp_all add: add_history_entry_def Let_def)

lemma clear_history_file [simp]:
  "history_file (clear_history s) = history_file s"
  "unwritable (clear_history s) = unwritable s"
  by (simp_all add: clear_history_def)

lemma saved_document:
  "history_file s \<noteq> [] \<Longrightarrow> \<not> unwritable s (history_file s) \<Longrightarrow>
     disk (save_history s) (history_file s) = Document (history_payload s)"
  by (simp add: save_history_def)

text \<open>
  Claim C4. Take any state the history store reaches (a fresh executor that has loaded
  whatever the history file held, followed by appends and clears) whose entries are within
  the retention cap, and let \<open>save_history\<close> write its document. Then \<open>load_history\<close>, run
  by any executor that reads the same file, returns normally with the identical list of
  entries and the same counter.
\<close>

theorem history_round_trip:
  assumes st: "history_state m s" and cap: "within_cap m (command_history s)"
    and hf: "history_file s \<noteq> []" and w: "\<not> unwritable s (history_file s)"
    and same_file: "history_file t = history_file s" and same_disk: "disk t = disk (save_history s)"
  shows "\<exists>t'. load_history m t = Inr t' \<and> command_history t' = command_history s \<and>
              history_next_index t' = history_next_index s"
proof -
  from st within_cap_nonneg [OF cap] have cnt: "loadable_counter s"
    by (rule history_state_loadable)
  from hf same_file have f: "history_file t \<noteq> []" by simp
  from saved_document [OF hf w] same_file same_disk
  have doc: "disk t (history_file t) = Document (history_payload s)" by simp
  from load_saved_document [OF f doc cap cnt] show ?thesis by simp
qed

lemma example_shell_file:
  "history_file example_shell = ''command_history.json''"
  "disk example_shell p = Missing"
  "\<not> unwritable example_shell p"
  by (simp_all add: example_shell_def)

lemma example_shell_state: "history_state 100 example_shell"
proof (rule history_state.loaded)
  show "fresh_history example_shell"
    by (simp add: fresh_history_def example_shell_history)
  show "load_history 100 example_shell = Inr example_shell"
    by (simp add: load_history_def example_shell_file)
qed

lemma after_clear_state: "history_state 100 after_clear"
  unfolding after_clear_def before_clear_def add_all.simps
  by (intro history_state.added history_state.cleared example_shell_state)

lemma after_clear_file:
  "history_file after_clear = ''command_history.json''"
  "\<not> unwritable after_clear p"
  by (simp_all add: after_clear_def before_clear_def example_shell_file)

theorem history_round_trip_witness:
  "history_state 100 after_clear \<and> within_cap 100 (command_history after_clear) \<and>
   history_file after_clear \<noteq> [] \<and> \<not> unwritable after_clear (history_file after_clear) \<and>
   (case load_history 100 (save_history after_clear) of
      Inr t' \<Rightarrow> (command_history t', history_next_index t')
    | Inl err \<Rightarrow> ([], PyInt 0)) = ([\<lparr>index = PyInt 1, command = ''pwd''\<rparr>], PyInt 2)"
proof -
  have cap: "within_cap 100 (command_history after_clear)"
    by (simp add: within_cap_def after_clear_fields)
  have hf: "history_file after_clear \<noteq> []" by (simp add: after_clear_file)
  have w: "\<not> unwritable after_clear (history_file after_clear)" by (simp add: after_clear_file)
  from history_round_trip [OF after_clear_state cap hf w, of "save_history after_clear"]
  obtain t' where "load_history 100 (save_history after_clear) = Inr t'"
    and "command_history t' = command_history after_clear"
    and "history_next_index t' = history_next_index after_clear"
    by auto
  then have "(case load_history 100 (save_history after_clear) of
      Inr t' \<Rightarrow> (command_history t', history_next_index t')
    | Inl err \<Rightarrow> ([], PyInt 0)) = ([\<lparr>index = PyInt 1, command = ''pwd''\<rparr>], PyInt 2)"
    by (simp add: after_clear_fields)
  with after_clear_state cap hf w show ?thesis by (intro conjI)
qed
subsection \<open>The PTY escape filter\<close>

lemma py_int_examples:
  "py_int ''2'' = Some 2" "py_int ''-5'' = Some (- 5)" "py_int ''31'' = Some 31"
  "py_int ''0'' = Some 0"
  by code_simp+

lemma strip_examples:
  "strip_ansi_codes ''helhi'' = ''helhi''" "strip ''helhi'' \<noteq> []"
  "strip_ansi_codes ''ERROR'' = ''ERROR''" "strip ''ERROR'' \<noteq> []"
  by code_simp+

lemma strip_examples_more:
  "strip_ansi_codes ''hello'' = ''hello''" "strip_ansi_codes ''hel'' = ''hel''"
  "strip_ansi_codes [] = []"
  by code_simp+

lemma isalpha_examples:
  "\<not> isalpha_char (CHR ''['')" "\<not> isalpha_char (CHR ''-'')"
  "\<not> isalpha_char (CHR ''0'')" "\<not> isalpha_char (CHR ''1'')" "\<not> isalpha_char (CHR ''2'')"
  "\<not> isalpha_char (CHR ''3'')" "\<not> isalpha_char (CHR ''5'')"
  "isalpha_char (CHR ''C'')" "isalpha_char (CHR ''D'')" "isalpha_char (CHR ''K'')"
  "isalpha_char (CHR ''m'')"
  by code_simp+

lemma apply_cursor_left_2:
  "apply_escape_sequence (ESC # ''[2D'') p = p\<lparr>cursor_pos := max 0 (cursor_pos p - 2)\<rparr>"
  by (simp add: apply_escape_sequence_def ESC_def py_int_examples)

lemma apply_cursor_left_minus_5:
  "apply_escape_sequence (ESC # ''[-5D'') p = p\<lparr>cursor_pos := max 0 (cursor_pos p + 5)\<rparr>"
  by (simp add: apply_escape_sequence_def ESC_def py_int_examples)

lemma apply_cursor_right_minus_5:
  "apply_escape_sequence (ESC # ''[-5C'') p =
     p\<lparr>cursor_pos := min (int (length (current_line p))) (cursor_pos p - 5)\<rparr>"
  by (simp add: apply_escape_sequence_def ESC_def py_int_examples)

lemma apply_erase:
  "apply_escape_sequence (ESC # ''[K'') p = p\<lparr>current_line := slice_to (cursor_pos p) (current_line p)\<rparr>"
  by (simp add: apply_escape_sequence_def ESC_def)

lemma apply_colour:
  "apply_escape_sequence (ESC # ''[31m'') p = p"
  "apply_escape_sequence (ESC # ''[0m'') p = p"
  by (simp_all add: apply_escape_sequence_def ESC_def)

text \<open>
  Claim C5. With the in-progress line \<open>hello\<close> and the cursor at 5, \<open>ESC[2D\<close> moves the
  cursor to 3 and leaves the line; \<open>ESC[K\<close> then cuts the line to \<open>hel\<close>; the characters
  \<open>h\<close> and \<open>i\<close> then append from position 3, and the newline commits exactly \<open>helhi\<close> to
  the output log and resets the line and the cursor. Run as a whole on these three chunks
  from the partial line \<open>hello\<close>, the reader adds to the log the line \<open>helhi\<close> and then
  its own closing notice.
\<close>

theorem escape_filter_worked_example:
  "feed_text (ESC # ''[2D'') (hello_pty, s) = Inr (hello_pty\<lparr>cursor_pos := 3\<rparr>, s) \<and>
   feed_text (ESC # ''[K'') (hello_pty\<lparr>cursor_pos := 3\<rparr>, s) =
     Inr (hello_pty\<lparr>current_line := ''hel'', cursor_pos := 3\<rparr>, s) \<and>
   feed_text ''hi'' (hello_pty\<lparr>current_line := ''hel'', cursor_pos := 3\<rparr>, s) =
     Inr (hello_pty\<lparr>current_line := ''helhi'', cursor_pos := 5\<rparr>, s) \<and>
   feed_text [CHR 0x0A] (hello_pty\<lparr>current_line := ''helhi'', cursor_pos := 5\<rparr>, s) =
     Inr (empty_pty, add_output ''helhi'' s) \<and>
   map_sum id output_lines
     (read_pty_output [ESC # ''[2D'', ESC # ''[K'', ''hi'' @ [CHR 0x0A]]
        (s\<lparr>pty_partial_line := ''hello''\<rparr>)) =
     Inr (deque_append (deque_append (output_lines s) ''helhi'') ''[System] Exited interactive mode'')"
proof (intro conjI)
  show "map_sum id output_lines
     (read_pty_output [ESC # ''[2D'', ESC # ''[K'', ''hi'' @ [CHR 0x0A]]
        (s\<lparr>pty_partial_line := ''hello''\<rparr>)) =
     Inr (deque_append (deque_append (output_lines s) ''helhi'') ''[System] Exited interactive mode'')"
    by (simp add: read_pty_output_def finish_pty_def cleanup_pty_def feed_char_def Let_def
        isalpha_examples apply_cursor_left_2 [unfolded ESC_def] apply_erase [unfolded ESC_def]
        slice_to_def ESC_def commit_line_def strip_examples strip_examples_more)
  show "feed_text (ESC # ''[2D'') (hello_pty, s) = Inr (hello_pty\<lparr>cursor_pos := 3\<rparr>, s)"
    by (simp add: feed_char_def Let_def isalpha_examples apply_cursor_left_2 [unfolded ESC_def]
        hello_pty_def ESC_def)
  show "feed_text (ESC # ''[K'') (hello_pty\<lparr>cursor_pos := 3\<rparr>, s) =
      Inr (hello_pty\<lparr>current_line := ''hel'', cursor_pos := 3\<rparr>, s)"
    by (simp add: feed_char_def Let_def isalpha_examples apply_erase [unfolded ESC_def]
        slice_to_def hello_pty_def ESC_def)
  show "feed_text ''hi'' (hello_pty\<lparr>current_line := ''hel'', cursor_pos := 3\<rparr>, s) =
      Inr (hello_pty\<lparr>current_line := ''helhi'', cursor_pos := 5\<rparr>, s)"
    by (simp add: feed_char_def Let_def hello_pty_def ESC_def)
  show "feed_text [CHR 0x0A] (hello_pty\<lparr>current_line := ''helhi'', cursor_pos := 5\<rparr>, s) =
      Inr (empty_pty, add_output ''helhi'' s)"
    by (simp add: feed_char_def Let_def hello_pty_def empty_pty_def ESC_def commit_line_def
        strip_examples)
qed

text \<open>
  Claim C6. Fed to the reader with an empty line in progress, the text
  \<open>ESC[31mERROR ESC[0m\<close> followed by a newline commits exactly the line \<open>ERROR\<close>; each of
  the two colour sequences, met outside an escape sequence, leaves the line and the
  cursor as they were; and the stripping pass used for piped output turns the same text
  into \<open>ERROR\<close> with its newline. Run as a whole on this one chunk, the reader adds to
  the log the line \<open>ERROR\<close> and then its own closing notice.
\<close>

theorem colour_sequences_stripped:
  "feed_text (ESC # ''[31mERROR'' @ ESC # ''[0m'' @ [CHR 0x0A]) (empty_pty, s) =
     Inr (empty_pty, add_output ''ERROR'' s) \<and>
   feed_text (ESC # ''[31m'') (p\<lparr>in_escape := False\<rparr>, s) =
     Inr (p\<lparr>escape_buffer := [], in_escape := False\<rparr>, s) \<and>
   feed_text (ESC # ''[0m'') (p\<lparr>in_escape := False\<rparr>, s) =
     Inr (p\<lparr>escape_buffer := [], in_escape := False\<rparr>, s) \<and>
   strip_ansi_codes (ESC # ''[31mERROR'' @ ESC # ''[0m'' @ [CHR 0x0A]) = ''ERROR'' @ [CHR 0x0A] \<and>
   map_sum id output_lines
     (read_pty_output [ESC # ''[31mERROR'' @ ESC # ''[0m'' @ [CHR 0x0A]]
        (s\<lparr>pty_partial_line := []\<rparr>)) =
     Inr (deque_append (deque_append (output_lines s) ''ERROR'') ''[System] Exited interactive mode'')"
proof (intro conjI)
  show "map_sum id output_lines
     (read_pty_output [ESC # ''[31mERROR'' @ ESC # ''[0m'' @ [CHR 0x0A]]
        (s\<lparr>pty_partial_line := []\<rparr>)) =
     Inr (deque_append (deque_append (output_lines s) ''ERROR'') ''[System] Exited interactive mode'')"
    by (simp add: read_pty_output_def finish_pty_def cleanup_pty_def feed_char_def Let_def
        isalpha_examples apply_colour [unfolded ESC_def]
        ESC_def commit_line_def strip_examples strip_examples_more)
  show "feed_text (ESC # ''[31mERROR'' @ ESC # ''[0m'' @ [CHR 0x0A]) (empty_pty, s) =
      Inr (empty_pty, add_output ''ERROR'' s)"
    by (simp add: feed_char_def Let_def isalpha_examples apply_colour [unfolded ESC_def]
        empty_pty_def ESC_def commit_line_def strip_examples)
  show "feed_text (ESC # ''[31m'') (p\<lparr>in_escape := False\<rparr>, s) =
      Inr (p\<lparr>escape_buffer := [], in_escape := False\<rparr>, s)"
    by (simp add: feed_char_def Let_def isalpha_examples apply_colour [unfolded ESC_def] ESC_def)
  show "feed_text (ESC # ''[0m'') (p\<lparr>in_escape := False\<rparr>, s) =
      Inr (p\<lparr>escape_buffer := [], in_escape := False\<rparr>, s)"
    by (simp add: feed_char_def Let_def isalpha_examples apply_colour [unfolded ESC_def] ESC_def)
  show "strip_ansi_codes (ESC # ''[31mERROR'' @ ESC # ''[0m'' @ [CHR 0x0A]) = ''ERROR'' @ [CHR 0x0A]"
    by code_simp
qed

text \<open>
  Where no escape sequence carries a parameter that reads as a negative number, every
  step of the reader keeps the cursor between 0 and the length of the line.
\<close>

lemma apply_escape_bounds:
  assumes "cursor_in_bounds p" and "nonneg_amount sequence"
  shows "cursor_in_bounds (apply_escape_sequence sequence p)"
proof -
  obtain a where a: "(if butlast (drop 2 sequence) \<noteq> []
      then (case py_int (butlast (drop 2 sequence)) of Some n \<Rightarrow> n | None \<Rightarrow> 1) else 1) = a"
    by blast
  from assms(2) have "0 \<le> a"
    unfolding a [symmetric] by (simp add: nonneg_amount_def split: option.splits)
  with assms(1) show ?thesis
    unfolding apply_escape_sequence_def Let_def a
    by (auto simp: cursor_in_bounds_def slice_to_def)
qed

lemma feed_char_bounds:
  assumes "cursor_in_bounds p" and "in_escape p \<longrightarrow> nonneg_amount (escape_buffer p @ [c])"
    and "feed_char c (p, s) = Inr (p', s')"
  shows "cursor_in_bounds p'"
proof (cases "in_escape p")
  case True
  with assms(2) have n: "nonneg_amount (escape_buffer p @ [c])" by simp
  have b: "cursor_in_bounds (apply_escape_sequence (escape_buffer p @ [c]) p)"
    using assms(1) n by (rule apply_escape_bounds)
  from True assms(1,3) b show ?thesis
    by (auto simp: feed_char_def Let_def cursor_in_bounds_def split: if_splits)
next
  case False
  with assms(1,3) show ?thesis
    by (auto simp: feed_char_def Let_def cursor_in_bounds_def set_item_def
        split: if_splits sum.splits)
qed

text \<open>
  Claim C9 does not hold of the code. A cursor-left sequence whose parameter is a negative
  numeral moves the cursor right without a bound: from the empty line, \<open>ESC[-5D\<close> leaves
  the cursor at 5 on a line of length 0. A cursor-right sequence with a negative parameter
  makes the cursor negative, and the next printable character then raises \<open>IndexError\<close>.
\<close>

theorem cursor_leaves_bounds:
  "cursor_in_bounds empty_pty \<and>
   feed_text (ESC # ''[-5D'') (empty_pty, s) = Inr (empty_pty\<lparr>cursor_pos := 5\<rparr>, s) \<and>
   \<not> cursor_in_bounds (empty_pty\<lparr>cursor_pos := 5\<rparr>) \<and>
   feed_text (ESC # ''[-5C'') (empty_pty, s) = Inr (empty_pty\<lparr>cursor_pos := - 5\<rparr>, s) \<and>
   feed_text (ESC # ''[-5Cx'') (empty_pty, s) = Inl IndexError"
proof (intro conjI)
  show "cursor_in_bounds empty_pty"
    by (simp add: cursor_in_bounds_def empty_pty_def)
  show "feed_text (ESC # ''[-5D'') (empty_pty, s) = Inr (empty_pty\<lparr>cursor_pos := 5\<rparr>, s)"
    by (simp add: feed_char_def Let_def isalpha_examples apply_cursor_left_minus_5 [unfolded ESC_def]
        empty_pty_def ESC_def)
  show "\<not> cursor_in_bounds (empty_pty\<lparr>cursor_pos := 5\<rparr>)"
    by (simp add: cursor_in_bounds_def empty_pty_def)
  show "feed_text (ESC # ''[-5C'') (empty_pty, s) = Inr (empty_pty\<lparr>cursor_pos := - 5\<rparr>, s)"
    by (simp add: feed_char_def Let_def isalpha_examples apply_cursor_right_minus_5 [unfolded ESC_def]
        empty_pty_def ESC_def)
  show "feed_text (ESC # ''[-5Cx'') (empty_pty, s) = Inl IndexError"
    by (simp add: feed_char_def Let_def isalpha_examples apply_cursor_right_minus_5 [unfolded ESC_def]
        empty_pty_def ESC_def set_item_def)
qed
subsection \<open>Environment probe, user switching and alias resolution\<close>

lemma some_output_line [simp]: "\<exists>line. add_output x s = add_output line s"
  by (rule exI, rule refl)

text \<open>
  The failure paths of the probe: when the probe shell cannot be run, exits with a nonzero
  status, or prints no newline at all, \<open>apply_shell_environment\<close> returns \<open>False\<close> and
  its only effect is one error line in the output log.
\<close>

lemma probe_failure_leaves_state:
  assumes "probe_failed p"
  shows "\<exists>line. apply_shell_environment h p description s = Inr (False, add_output line s) \<and>
           cwd (add_output line s) = cwd s \<and> environ (add_output line s) = environ s"
proof (cases p)
  case (Raised e)
  then show ?thesis by (simp add: apply_shell_environment_def)
next
  case (Completed returncode out errout)
  show ?thesis
  proof (cases "returncode \<noteq> 0")
    case True
    with Completed show ?thesis by (simp add: apply_shell_environment_def Let_def)
  next
    case False
    with assms Completed have "CHR 0x0A \<notin> set out" by (simp add: probe_failed_def)
    with False Completed show ?thesis
      by (simp add: apply_shell_environment_def)
  qed
qed

lemma probe_failure_leaves_state_instance:
  "probe_failed (Completed 1 [] ''bash: line 1: /tmp/x: No such file or directory'') \<and>
   (\<exists>line. apply_shell_environment example_host
       (Completed 1 [] ''bash: line 1: /tmp/x: No such file or directory'') ''source'' example_shell
         = Inr (False, add_output line example_shell) \<and>
       cwd (add_output line example_shell) = cwd example_shell \<and>
       environ (add_output line example_shell) = environ example_shell)"
proof -
  have f: "probe_failed (Completed 1 [] ''bash: line 1: /tmp/x: No such file or directory'')"
    by (simp add: probe_failed_def)
  from f probe_failure_leaves_state [OF f, of example_host "''source''" example_shell]
  show ?thesis by (rule conjI)
qed

text \<open>
  Claim C1 does not hold of the code. The trailer is only looked for on the first line of
  the output. When the shell prints a line of its own first (a login profile that greets),
  the sentinel line is displaced: the exit status is 0 and the output has a newline, so
  the call is not a failure. The working directory the probe reported is lost, every
  tracked variable that the parse does not yield is removed, the sentinel line ends up
  inside the name of a variable, and the result is \<open>True\<close>. The same happens when the
  sentinel is missing altogether. With the sentinel on the first line the same dump is
  applied as meant.
\<close>

theorem probe_without_sentinel_applied:
  "(case apply_shell_environment example_host
           (Completed 0 (''Welcome'' @ [CHR 0x0A] @ ''__PWD__/srv/proj'' @ [CHR 0x0A]
                         @ ''PWD=/srv/proj'' @ [CHR 0x00] @ ''PATH=/usr/bin'' @ [CHR 0x00]) [])
           ''source'' example_shell of
      Inr (ok, s') \<Rightarrow>
        (ok, cwd s', environ s' ''PWD'', environ s' ''PATH'',
         environ s' (''__PWD__/srv/proj'' @ [CHR 0x0A] @ ''PWD''))
    | Inl e \<Rightarrow> (False, [], None, None, None)) =
     (True, ''/home/ark'', None, Some ''/usr/bin'', Some ''/srv/proj'') \<and>
   (case apply_shell_environment example_host
           (Completed 0 (''garbage'' @ [CHR 0x0A] @ ''FOO=bar'' @ [CHR 0x00]) [])
           ''source'' example_shell of
      Inr (ok, s') \<Rightarrow> (ok, cwd s', environ s' ''PATH'', environ s' ''FOO'')
    | Inl e \<Rightarrow> (False, [], None, None)) = (True, ''/home/ark'', None, Some ''bar'') \<and>
   (case apply_shell_environment example_host
           (Completed 0 (''__PWD__/srv/proj'' @ [CHR 0x0A]
                         @ ''PWD=/srv/proj'' @ [CHR 0x00] @ ''PATH=/usr/bin'' @ [CHR 0x00]) [])
           ''source'' example_shell of
      Inr (ok, s') \<Rightarrow> (ok, cwd s', environ s' ''PWD'', environ s' ''PATH'')
    | Inl e \<Rightarrow> (False, [], None, None)) =
     (True, ''/srv/proj'', Some ''/srv/proj'', Some ''/usr/bin'') \<and>
   cwd example_shell = ''/home/ark'' \<and> environ example_shell ''PATH'' = Some ''/usr/bin''"
  by code_simp




text \<open>
  Claim C7 does not hold of the code. The first token is found with \<open>shlex.split\<close>, but the
  replacement cuts \<open>len(first)\<close> characters off the raw text. When the token is written
  with a backslash or an inner quotation the two differ: with \<open>py\<close> absent from the search
  path and \<open>python3\<close> on it, the line \<open>p\y -V\<close>, whose first token is \<open>py\<close>, becomes
  \<open>python3y -V\<close> and the alias is reported as applied.
\<close>

theorem alias_cuts_raw_text:
  "shlex_split (''p'' @ [CHR 0x5C] @ ''y -V'') = Some [''py'', ''-V''] \<and>
   which example_host ''py'' = None \<and> which example_host ''python3'' = Some ''/usr/bin/python3'' \<and>
   resolve_command_alias example_host (''p'' @ [CHR 0x5C] @ ''y -V'') =
     (''python3y -V'', Some (''py'', ''python3'')) \<and>
   resolve_command_alias example_host ''py -V'' = (''python3 -V'', Some (''py'', ''python3''))"
  by code_simp

end
